theory Spec2Isabelle
  imports Main
begin

section \<open>JavaScript values\<close>

text \<open>
  The models of this repository (\<^verbatim>\<open>Company\<close>, \<^verbatim>\<open>Job\<close>) and the helper
  \<^verbatim>\<open>sqlForPartialUpdate\<close> are JavaScript. They test their arguments for truthiness,
  compare them with \<^verbatim>\<open>>\<close> and splice them into template literals, so the
  embedding carries the values as JavaScript has them. The numbers among them are the
  integers (the filters of the data model are integers); fractions, infinities and NaN as
  values of an option are not modelled. An object
  in a value position (an array, a function, a nested object) is carried as \<open>JObj s\<close>,
  where \<open>s\<close> is the string its conversion to a primitive yields.
\<close>

datatype jsval = JUndefined | JNull | JBool bool | JNum int | JStr string | JObj string

text \<open>\<^verbatim>\<open>if (v)\<close>, \<^verbatim>\<open>!v\<close>, \<^verbatim>\<open>a || b\<close>: ToBoolean.\<close>

fun truthy :: "jsval \<Rightarrow> bool" where
  "truthy JUndefined = False"
| "truthy JNull = False"
| "truthy (JBool b) = b"
| "truthy (JNum n) = (n \<noteq> 0)"
| "truthy (JStr s) = (s \<noteq> [])"
| "truthy (JObj s) = True"

text \<open>Decimal digits, and the decimal numeral of a natural number.\<close>

definition is_digit :: "char \<Rightarrow> bool" where
  "is_digit c = (48 \<le> (of_char c :: nat) \<and> (of_char c :: nat) \<le> 57)"

definition digit_val :: "char \<Rightarrow> nat" where
  "digit_val c = of_char c - 48"

definition digit_char :: "nat \<Rightarrow> char" where
  "digit_char d = char_of (48 + d)"

fun string_of_nat :: "nat \<Rightarrow> string" where
  "string_of_nat n =
     (if n < 10 then [digit_char n]
      else string_of_nat (n div 10) @ [digit_char (n mod 10)])"

declare string_of_nat.simps [simp del]

text \<open>
  \<^verbatim>\<open>`${v}`\<close>: ToString. A JavaScript number is a double. Every integer below \<open>2\<^sup>5\<^sup>3\<close>
  is one and prints as its decimal numeral. A larger integer is a number of JavaScript
  when it is a double, and then prints as ECMAScript's \<^verbatim>\<open>Number::toString\<close> says: with the
  fewest digits that still round to it (of several such numerals the closest, of two
  equally close the even one), followed by zeros up to 21 digits, and in exponent form
  beyond. \<open>rounds_to x v\<close> says that the integer \<open>v\<close> rounds to the double \<open>x\<close>: it lies
  within half the distance to the neighbouring doubles, the ends included when the
  significand of \<open>x\<close> is even.
\<close>

fun log2_floor :: "nat \<Rightarrow> nat" where
  "log2_floor n = (if n < 2 then 0 else Suc (log2_floor (n div 2)))"

declare log2_floor.simps [simp del]

definition rounds_to :: "nat \<Rightarrow> nat \<Rightarrow> bool" where
  "rounds_to x v =
     (let e = log2_floor x - 52;
          m = x div 2 ^ e;
          up = 2 * 2 ^ e;
          down = (if m = 2 ^ 52 then 2 ^ e else 2 * 2 ^ e)
      in if even m then 4 * x \<le> 4 * v + down \<and> 4 * v \<le> 4 * x + up
         else 4 * x < 4 * v + down \<and> 4 * v < 4 * x + up)"

text \<open>
  The numeral of \<open>k\<close> digits for \<open>x\<close>, a number of \<open>D\<close> digits, if there is one: its digits
  as a number, and the count of digits of the value it stands for.
\<close>

definition digits_candidate :: "nat \<Rightarrow> nat \<Rightarrow> nat \<Rightarrow> (nat \<times> nat) option" where
  "digits_candidate x D k =
     (let q = 10 ^ (D - k);
          s0 = x div q;
          v0 = s0 * q;
          v1 = (s0 + 1) * q;
          s = (if rounds_to x v0 \<and> rounds_to x v1
               then (if x - v0 < v1 - x then Some s0
                     else if v1 - x < x - v0 then Some (s0 + 1)
                     else if even s0 then Some s0 else Some (s0 + 1))
               else if rounds_to x v0 then Some s0
               else if rounds_to x v1 then Some (s0 + 1)
               else None)
      in case s of
           None \<Rightarrow> None
         | Some d \<Rightarrow> if d = 10 ^ k then Some (d div 10, D + 1) else Some (d, D))"

definition shortest_digits :: "nat \<Rightarrow> nat \<times> nat" where
  "shortest_digits x =
     (let D = length (string_of_nat x)
      in case List.map_filter (digits_candidate x D) [1 ..< Suc D] of
           [] \<Rightarrow> (x, D)
         | r # _ \<Rightarrow> r)"

definition Number_toString :: "nat \<Rightarrow> string" where
  "Number_toString x =
     (if x < 2 ^ 53 then string_of_nat x
      else (case shortest_digits x of
              (s, n) \<Rightarrow>
                (let ds = string_of_nat s; k = length ds
                 in if n \<le> 21 then ds @ replicate (n - k) (CHR ''0'')
                    else if k = 1 then ds @ ''e+'' @ string_of_nat (n - 1)
                    else hd ds # CHR ''.'' # tl ds @ ''e+'' @ string_of_nat (n - 1))))"

fun ToString :: "jsval \<Rightarrow> string" where
  "ToString JUndefined = ''undefined''"
| "ToString JNull = ''null''"
| "ToString (JBool b) = (if b then ''true'' else ''false'')"
| "ToString (JNum n) =
     (if n < 0 then CHR ''-'' # Number_toString (nat (- n)) else Number_toString (nat n))"
| "ToString (JStr s) = s"
| "ToString (JObj s) = s"

text \<open>
  \<^verbatim>\<open>a > b\<close> is the relational comparison of ECMAScript: both operands are converted to
  primitives; two strings are compared by code units, every other pair as numbers, and a
  comparison with NaN is false. The number a string converts to is kept exactly, as a
  decimal \<open>Dec m e\<close> of value \<open>m \<times> 10\<^sup>e\<close> or an infinity; JavaScript rounds it to a
  double, which no comparison of integers below \<open>2\<^sup>5\<^sup>3\<close> can tell. Strings are sequences
  of bytes, the UTF-8 form of the text: the order by code units is the order by bytes
  except between a character above U+FFFF and one from U+E000 to U+FFFF.
\<close>

datatype jsnum = NaN | NegInfinity | Dec int int | PosInfinity

definition dec_less :: "int \<Rightarrow> int \<Rightarrow> int \<Rightarrow> int \<Rightarrow> bool" where
  "dec_less m1 e1 m2 e2 =
     (let e = min e1 e2 in m1 * 10 ^ nat (e1 - e) < m2 * 10 ^ nat (e2 - e))"

fun jsnum_less :: "jsnum \<Rightarrow> jsnum \<Rightarrow> bool" where
  "jsnum_less NaN y = False"
| "jsnum_less x NaN = False"
| "jsnum_less x NegInfinity = False"
| "jsnum_less NegInfinity y = True"
| "jsnum_less PosInfinity y = False"
| "jsnum_less (Dec m1 e1) PosInfinity = True"
| "jsnum_less (Dec m1 e1) (Dec m2 e2) = dec_less m1 e1 m2 e2"

fun read_num :: "nat \<Rightarrow> string \<Rightarrow> nat \<times> string" where
  "read_num acc [] = (acc, [])"
| "read_num acc (c # cs) =
     (if is_digit c then read_num (10 * acc + digit_val c) cs else (acc, c # cs))"

text \<open>
  The white space and line terminators that \<^verbatim>\<open>StringToNumber\<close> strips from both ends of
  a string, in UTF-8: TAB, LF, VT, FF, CR, SP, U+00A0, U+1680, U+2000 to U+200A, U+2028,
  U+2029, U+202F, U+205F, U+3000 and U+FEFF.
\<close>

definition StrWhiteSpaceChar :: "string list" where
  "StrWhiteSpaceChar =
     [[CHR 0x09], [CHR 0x0A], [CHR 0x0B], [CHR 0x0C], [CHR 0x0D], [CHR 0x20],
      [CHR 0xC2, CHR 0xA0], [CHR 0xE1, CHR 0x9A, CHR 0x80]]
     @ map (\<lambda>b. [CHR 0xE2, CHR 0x80, char_of (b :: nat)]) [0x80 ..< 0x8B]
     @ [[CHR 0xE2, CHR 0x80, CHR 0xA8], [CHR 0xE2, CHR 0x80, CHR 0xA9],
        [CHR 0xE2, CHR 0x80, CHR 0xAF], [CHR 0xE2, CHR 0x81, CHR 0x9F],
        [CHR 0xE3, CHR 0x80, CHR 0x80], [CHR 0xEF, CHR 0xBB, CHR 0xBF]]"

definition ws_prefix_len :: "string \<Rightarrow> nat" where
  "ws_prefix_len s =
     (case List.find (\<lambda>w. take (length w) s = w) StrWhiteSpaceChar of
        Some w \<Rightarrow> length w
      | None \<Rightarrow> 0)"

definition ws_suffix_len :: "string \<Rightarrow> nat" where
  "ws_suffix_len s =
     (case List.find (\<lambda>w. length w \<le> length s \<and> drop (length s - length w) s = w)
             StrWhiteSpaceChar of
        Some w \<Rightarrow> length w
      | None \<Rightarrow> 0)"

text \<open>Each round strips one character; a string has no more of them than bytes.\<close>

fun trimStart :: "nat \<Rightarrow> string \<Rightarrow> string" where
  "trimStart 0 s = s"
| "trimStart (Suc n) s =
     (let k = ws_prefix_len s in if k = 0 then s else trimStart n (drop k s))"

fun trimEnd :: "nat \<Rightarrow> string \<Rightarrow> string" where
  "trimEnd 0 s = s"
| "trimEnd (Suc n) s =
     (let k = ws_suffix_len s in if k = 0 then s else trimEnd n (take (length s - k) s))"

definition trim :: "string \<Rightarrow> string" where
  "trim s = (let t = trimStart (length s) s in trimEnd (length t) t)"

text \<open>
  The numerals of \<^verbatim>\<open>StringToNumber\<close>: a literal of radix 16, 8 or 2 behind \<^verbatim>\<open>0x\<close>,
  \<^verbatim>\<open>0o\<close> or \<^verbatim>\<open>0b\<close> (in either case, unsigned), or an optionally signed decimal literal,
  which is \<^verbatim>\<open>Infinity\<close> or digits with an optional fraction and an optional exponent, a
  digit at least before or after the point. The empty string is 0; what is no numeral is
  NaN.
\<close>

definition radix_digit :: "char \<Rightarrow> nat option" where
  "radix_digit c =
     (let n = (of_char c :: nat)
      in if 48 \<le> n \<and> n \<le> 57 then Some (n - 48)
         else if 97 \<le> n \<and> n \<le> 102 then Some (n - 87)
         else if 65 \<le> n \<and> n \<le> 70 then Some (n - 55)
         else None)"

fun read_radix :: "nat \<Rightarrow> nat \<Rightarrow> string \<Rightarrow> nat option" where
  "read_radix b acc [] = Some acc"
| "read_radix b acc (c # cs) =
     (case radix_digit c of
        None \<Rightarrow> None
      | Some d \<Rightarrow> if d < b then read_radix b (b * acc + d) cs else None)"

definition radix_of :: "char \<Rightarrow> nat option" where
  "radix_of p =
     (if p = CHR ''x'' \<or> p = CHR ''X'' then Some 16
      else if p = CHR ''o'' \<or> p = CHR ''O'' then Some 8
      else if p = CHR ''b'' \<or> p = CHR ''B'' then Some 2
      else None)"

definition ExponentPart :: "string \<Rightarrow> int option" where
  "ExponentPart r =
     (case r of
        [] \<Rightarrow> Some 0
      | c # cs \<Rightarrow>
          if c = CHR ''e'' \<or> c = CHR ''E''
          then (let neg = (case cs of [] \<Rightarrow> False | d # _ \<Rightarrow> d = CHR ''-'');
                    signed = (case cs of [] \<Rightarrow> False | d # _ \<Rightarrow> d = CHR ''-'' \<or> d = CHR ''+'');
                    ds = (if signed then tl cs else cs)
                in if ds \<noteq> [] \<and> list_all is_digit ds
                   then Some ((if neg then - 1 else 1) * int (fst (read_num 0 ds)))
                   else None)
          else None)"

definition StrUnsignedDecimalLiteral :: "string \<Rightarrow> (nat \<times> int) option" where
  "StrUnsignedDecimalLiteral s =
     (let ip = takeWhile is_digit s;
          r1 = dropWhile is_digit s;
          dot = (case r1 of [] \<Rightarrow> False | c # _ \<Rightarrow> c = CHR ''.'');
          fp = (if dot then takeWhile is_digit (tl r1) else []);
          r2 = (if dot then dropWhile is_digit (tl r1) else r1)
      in if ip = [] \<and> fp = [] then None
         else (case ExponentPart r2 of
                 None \<Rightarrow> None
               | Some ex \<Rightarrow> Some (fst (read_num 0 (ip @ fp)), ex - int (length fp))))"

definition StrDecimalLiteral :: "string \<Rightarrow> jsnum" where
  "StrDecimalLiteral t =
     (let neg = (case t of [] \<Rightarrow> False | c # _ \<Rightarrow> c = CHR ''-'');
          signed = (case t of [] \<Rightarrow> False | c # _ \<Rightarrow> c = CHR ''-'' \<or> c = CHR ''+'');
          body = (if signed then tl t else t)
      in if body = ''Infinity'' then (if neg then NegInfinity else PosInfinity)
         else (case StrUnsignedDecimalLiteral body of
                 None \<Rightarrow> NaN
               | Some (m, e) \<Rightarrow> Dec ((if neg then - 1 else 1) * int m) e))"

definition StringToNumber :: "string \<Rightarrow> jsnum" where
  "StringToNumber s =
     (case trim s of
        [] \<Rightarrow> Dec 0 0
      | [c] \<Rightarrow> StrDecimalLiteral [c]
      | c # p # ds \<Rightarrow>
          (case (if c = CHR ''0'' then radix_of p else None) of
             Some b \<Rightarrow>
               (if ds = [] then NaN
                else case read_radix b 0 ds of None \<Rightarrow> NaN | Some n \<Rightarrow> Dec (int n) 0)
           | None \<Rightarrow> StrDecimalLiteral (c # p # ds)))"

fun ToPrimitive :: "jsval \<Rightarrow> jsval" where
  "ToPrimitive (JObj s) = JStr s"
| "ToPrimitive v = v"

fun ToNumber :: "jsval \<Rightarrow> jsnum" where
  "ToNumber JUndefined = NaN"
| "ToNumber JNull = Dec 0 0"
| "ToNumber (JBool b) = Dec (if b then 1 else 0) 0"
| "ToNumber (JNum n) = Dec n 0"
| "ToNumber (JStr s) = StringToNumber s"
| "ToNumber (JObj s) = StringToNumber s"

fun str_lt :: "string \<Rightarrow> string \<Rightarrow> bool" where
  "str_lt xs [] = False"
| "str_lt [] (y # ys) = True"
| "str_lt (x # xs) (y # ys) =
     ((of_char x :: nat) < of_char y \<or> (x = y \<and> str_lt xs ys))"

definition js_gt :: "jsval \<Rightarrow> jsval \<Rightarrow> bool" where
  "js_gt a b =
     (case (ToPrimitive a, ToPrimitive b) of
        (JStr x, JStr y) \<Rightarrow> str_lt y x
      | (x, y) \<Rightarrow> jsnum_less (ToNumber y) (ToNumber x))"

subsection \<open>Objects\<close>

text \<open>
  An object is the list of its own enumerable properties in the order \<^verbatim>\<open>Object.keys\<close>
  enumerates them; the keys of an object are distinct. A property read \<^verbatim>\<open>o[k]\<close> (and the
  destructuring \<^verbatim>\<open>const { k } = o\<close>) follows the prototype chain: an object literal
  answers the member names of \<^verbatim>\<open>Object.prototype\<close> with the inherited function, whose
  string form is the one Node prints, and every other absent key with \<^verbatim>\<open>undefined\<close>.
\<close>

type_synonym js_object = "(string \<times> jsval) list"

definition Object_keys :: "js_object \<Rightarrow> string list" where
  "Object_keys obj = map fst obj"

definition Object_values :: "js_object \<Rightarrow> jsval list" where
  "Object_values obj = map snd obj"

definition Object_prototype :: "string \<Rightarrow> jsval" where
  "Object_prototype k =
     (if k = ''constructor'' then JObj ''function Object() { [native code] }''
      else if k = ''__proto__'' then JObj ''[object Object]''
      else if k \<in> set [''hasOwnProperty'', ''isPrototypeOf'', ''propertyIsEnumerable'',
                        ''toLocaleString'', ''toString'', ''valueOf'',
                        ''__defineGetter__'', ''__defineSetter__'',
                        ''__lookupGetter__'', ''__lookupSetter__'']
      then JObj (''function '' @ k @ ''() { [native code] }'')
      else JUndefined)"

definition js_get :: "js_object \<Rightarrow> string \<Rightarrow> jsval" where
  "js_get obj k = (case map_of obj k of Some v \<Rightarrow> v | None \<Rightarrow> Object_prototype k)"

text \<open>\<^verbatim>\<open>xs.join(sep)\<close> on an array of strings.\<close>

fun join :: "string \<Rightarrow> string list \<Rightarrow> string" where
  "join sep [] = []"
| "join sep [x] = x"
| "join sep (x # y # ys) = x @ sep @ join sep (y # ys)"

subsection \<open>Errors\<close>

text \<open>
  Modelled from the spec: the module \<^verbatim>\<open>expressError\<close>, which declares the error classes,
  is not among the sources. The classes are those the code throws, each with its message:
  \<open>ExpressError\<close> carries its HTTP status, \<open>BadRequestError\<close> is the client error of
  status 400 and \<open>NotFoundError\<close> the one of status 404. \<open>ReferenceError\<close> is what the
  runtime throws when an undeclared identifier is read. \<open>StoreError\<close> is a rejection of
  \<^verbatim>\<open>db.query\<close>, which the models let through.
\<close>

datatype error =
    ExpressError string nat
  | BadRequestError string
  | NotFoundError string
  | ReferenceError string
  | StoreError string

text \<open>
  The two validation failures of the list operations, by the names the specification
  gives them.
\<close>

definition InvalidFilter :: error where
  "InvalidFilter = ExpressError ''Invalid filter option'' 400"

definition FilterConflict :: error where
  "FilterConflict = ExpressError ''Employee filter conflict'' 400"

section \<open>The partial-update helper\<close>

text \<open>
  \<^verbatim>\<open>sqlForPartialUpdate(dataToUpdate, jsToSql)\<close>. The column of a key is
  \<^verbatim>\<open>jsToSql[colName] || colName\<close>, spliced into a template literal.
\<close>

definition column_name :: "js_object \<Rightarrow> string \<Rightarrow> string" where
  "column_name jsToSql colName =
     (let alias = js_get jsToSql colName in if truthy alias then ToString alias else colName)"

definition sqlForPartialUpdate_cols :: "js_object \<Rightarrow> js_object \<Rightarrow> string list" where
  \<open>sqlForPartialUpdate_cols dataToUpdate jsToSql =
     map (\<lambda>(colName, idx). ''"'' @ column_name jsToSql colName @ ''"=$'' @ string_of_nat (idx + 1))
       (zip (Object_keys dataToUpdate) [0 ..< length (Object_keys dataToUpdate)])\<close>

definition sqlForPartialUpdate :: "js_object \<Rightarrow> js_object \<Rightarrow> error + (string \<times> jsval list)" where
  "sqlForPartialUpdate dataToUpdate jsToSql =
     (let keys = Object_keys dataToUpdate in
      if length keys = 0 then Inl (BadRequestError ''No data'')
      else Inr (join '', '' (sqlForPartialUpdate_cols dataToUpdate jsToSql),
                Object_values dataToUpdate))"

section \<open>The store\<close>

text \<open>
  \<^verbatim>\<open>db.query(text, values)\<close> is the one interface to the relational store, which is not
  part of this code. The models are therefore given the store as a parameter: a function
  from the store's state, a statement and its bind values to the rows it answers (or the
  message of its rejection) and the state afterwards. A row is an object from column
  label to value. A rejection propagates out of the model unchanged.
\<close>

type_synonym row = js_object

type_synonym 'db store = "'db \<Rightarrow> string \<Rightarrow> jsval list \<Rightarrow> (string + row list) \<times> 'db"

definition db_query :: "'db store \<Rightarrow> 'db \<Rightarrow> string \<Rightarrow> jsval list \<Rightarrow> (error + row list) \<times> 'db" where
  "db_query query db text values =
     (case query db text values of
        (Inl msg, db') \<Rightarrow> (Inl (StoreError msg), db')
      | (Inr rows, db') \<Rightarrow> (Inr rows, db'))"

text \<open>
  A store that answers every statement with the same rows and whose state is the list of
  the statements it has been handed, oldest first.
\<close>

type_synonym query_log = "(string \<times> jsval list) list"

definition logging_store :: "row list \<Rightarrow> query_log store" where
  "logging_store rows log text values = (Inr rows, log @ [(text, values)])"

section \<open>Companies\<close>

text \<open>
  \<^verbatim>\<open>Company.findAll(options)\<close>. The statement is assembled in a pair of variables, the text
  \<^verbatim>\<open>search\<close> and the array \<^verbatim>\<open>values\<close>; each of the three \<^verbatim>\<open>if\<close> blocks is a step on
  that pair. Validation and assembly come before the one call of the store.
\<close>

type_synonym query_state = "string \<times> jsval list"

definition Company_validFilters :: "string list" where
  "Company_validFilters = [''name'', ''minEmployees'', ''maxEmployees'']"

definition Company_findAll_base :: string where
  \<open>Company_findAll_base =
     ''SELECT handle,\<newline>                      name,\<newline>                      description,\<newline>                      num_employees AS "numEmployees",\<newline>                      logo_url AS "logoUrl"\<newline>               FROM companies''\<close>

definition Company_name_step :: "jsval \<Rightarrow> query_state \<Rightarrow> query_state" where
  "Company_name_step name st =
     (case st of (search, values) \<Rightarrow>
        if truthy name
        then (search @ ''WHERE name ILIKE $1'', values @ [JStr (''%'' @ ToString name @ ''%'')])
        else (search, values))"

definition Company_minEmployees_step :: "jsval \<Rightarrow> query_state \<Rightarrow> query_state" where
  "Company_minEmployees_step minEmployees st =
     (case st of (search, values) \<Rightarrow>
        if truthy minEmployees
        then ((if length values = 0
               then search @ ''WHERE num_employees >= $1''
               else search @ ''AND num_employees >= $'' @ string_of_nat (length values + 1)),
              values @ [minEmployees])
        else (search, values))"

definition Company_maxEmployees_step :: "jsval \<Rightarrow> query_state \<Rightarrow> query_state" where
  "Company_maxEmployees_step maxEmployees st =
     (case st of (search, values) \<Rightarrow>
        if truthy maxEmployees
        then ((if length values = 0
               then search @ ''WHERE num_employees <= $1''
               else search @ ''AND num_employees >=$'' @ string_of_nat (length values + 1)),
              values @ [maxEmployees])
        else (search, values))"

definition Company_findAll_query :: "js_object \<Rightarrow> error + query_state" where
  "Company_findAll_query options =
     (let name = js_get options ''name'';
          minEmployees = js_get options ''minEmployees'';
          maxEmployees = js_get options ''maxEmployees'';
          invalidFilters =
            filter (\<lambda>f. \<not> List.member Company_validFilters f) (Object_keys options)
      in if length invalidFilters > 0 then Inl (ExpressError ''Invalid filter option'' 400)
         else if js_gt minEmployees maxEmployees
         then Inl (ExpressError ''Employee filter conflict'' 400)
         else (case Company_maxEmployees_step maxEmployees
                      (Company_minEmployees_step minEmployees
                        (Company_name_step name (Company_findAll_base, []))) of
                 (search, values) \<Rightarrow> Inr (search @ ''ORDER BY name'', values)))"

definition Company_findAll :: "'db store \<Rightarrow> 'db \<Rightarrow> js_object \<Rightarrow> (error + row list) \<times> 'db" where
  "Company_findAll query db options =
     (case Company_findAll_query options of
        Inl e \<Rightarrow> (Inl e, db)
      | Inr (search, values) \<Rightarrow> db_query query db search values)"

text \<open>
  \<^verbatim>\<open>Company.get(handle)\<close>. The rows of the join are mapped to objects with a nested
  \<^verbatim>\<open>jobs\<close> object; \<^verbatim>\<open>company\<close> is the array \<^verbatim>\<open>map\<close> returns, and \<^verbatim>\<open>!company\<close> tests
  that array, which as every object is truthy, also when it is empty.
\<close>

datatype js_field = Field jsval | Nested js_object

type_synonym company_item = "(string \<times> js_field) list"

definition Array_truthy :: "'a list \<Rightarrow> bool" where
  "Array_truthy xs = True"

definition Company_get_sql :: string where
  \<open>Company_get_sql =
     ''SELECT c.handle, c.name, c.description,\<newline>                  c.num_employees AS "numEmployees",\<newline>                  c.logo_url AS "logoUrl",\<newline>                  j.id, j.title, j.salary, j.equity\<newline>           FROM companies AS c\<newline>           JOIN jobs AS j ON c.handle = j.company_handle\<newline>           WHERE c.handle = $1''\<close>

definition Company_get_item :: "row \<Rightarrow> company_item" where
  "Company_get_item row =
     [(''name'', Field (js_get row ''name'')),
      (''description'', Field (js_get row ''description'')),
      (''num_employees'', Field (js_get row ''numEmployees'')),
      (''logo_url'', Field (js_get row ''logoUrl'')),
      (''jobs'', Nested [(''id'', js_get row ''id''),
                         (''title'', js_get row ''title''),
                         (''salary'', js_get row ''salary''),
                         (''equity'', js_get row ''equity'')])]"

definition Company_get :: "'db store \<Rightarrow> 'db \<Rightarrow> string \<Rightarrow> (error + company_item list) \<times> 'db" where
  "Company_get query db handle =
     (case db_query query db Company_get_sql [JStr handle] of
        (Inl e, db') \<Rightarrow> (Inl e, db')
      | (Inr rows, db') \<Rightarrow>
          (let company = map Company_get_item rows
           in if \<not> Array_truthy company
              then (Inl (NotFoundError (''No company: '' @ handle)), db')
              else (Inr company, db')))"

text \<open>
  \<^verbatim>\<open>Company.remove(handle)\<close>. \<^verbatim>\<open>result.rows[0]\<close> is \<^verbatim>\<open>undefined\<close> when no row came
  back and a row object, which is truthy, otherwise.
\<close>

definition Company_remove_sql :: string where
  "Company_remove_sql =
     ''DELETE\<newline>           FROM companies\<newline>           WHERE handle = $1\<newline>           RETURNING handle''"

definition Company_remove :: "'db store \<Rightarrow> 'db \<Rightarrow> string \<Rightarrow> (error + unit) \<times> 'db" where
  "Company_remove query db handle =
     (case db_query query db Company_remove_sql [JStr handle] of
        (Inl e, db') \<Rightarrow> (Inl e, db')
      | (Inr rows, db') \<Rightarrow>
          (case rows of
             [] \<Rightarrow> (Inl (NotFoundError (''No company: '' @ handle)), db')
           | company # _ \<Rightarrow> (Inr (), db')))"

section \<open>Jobs\<close>

text \<open>\<^verbatim>\<open>Job.findAll(options)\<close>, built like the one of companies.\<close>

definition Job_validFilters :: "string list" where
  "Job_validFilters = [''title'', ''minSalary'', ''hasEquity'']"

definition Job_findAll_base :: string where
  \<open>Job_findAll_base =
     ''SELECT title,\<newline>                      salary,\<newline>                      equity,\<newline>                      company_handle AS "companyHandle"\<newline>               FROM jobs''\<close>

definition Job_title_step :: "jsval \<Rightarrow> query_state \<Rightarrow> query_state" where
  "Job_title_step title st =
     (case st of (search, values) \<Rightarrow>
        if truthy title
        then (search @ ''WHERE title ILIKE $1'', values @ [JStr (''%'' @ ToString title @ ''%'')])
        else (search, values))"

definition Job_minSalary_step :: "jsval \<Rightarrow> query_state \<Rightarrow> query_state" where
  "Job_minSalary_step minSalary st =
     (case st of (search, values) \<Rightarrow>
        if truthy minSalary
        then (let index = length values + 1
              in (search @ (if length values = 0
                            then '' WHERE salary >= $'' @ string_of_nat index
                            else '' AND salary >= $'' @ string_of_nat index),
                  values @ [minSalary]))
        else (search, values))"

definition Job_hasEquity_step :: "jsval \<Rightarrow> query_state \<Rightarrow> query_state" where
  "Job_hasEquity_step hasEquity st =
     (case st of (search, values) \<Rightarrow>
        if hasEquity \<noteq> JUndefined
        then (let operator = (if truthy hasEquity then ''>'' else ''='')
              in (search @ (if length values = 0
                            then '' WHERE equity '' @ operator @ '' 0''
                            else '' AND equity '' @ operator @ '' 0''),
                  values))
        else (search, values))"

definition Job_findAll_query :: "js_object \<Rightarrow> error + query_state" where
  "Job_findAll_query options =
     (let title = js_get options ''title'';
          minSalary = js_get options ''minSalary'';
          hasEquity = js_get options ''hasEquity'';
          invalidFilters =
            filter (\<lambda>f. \<not> List.member Job_validFilters f) (Object_keys options)
      in if length invalidFilters > 0 then Inl (ExpressError ''Invalid filter option'' 400)
         else (case Job_hasEquity_step hasEquity
                      (Job_minSalary_step minSalary
                        (Job_title_step title (Job_findAll_base, []))) of
                 (search, values) \<Rightarrow> Inr (search @ ''ORDER BY title'', values)))"

definition Job_findAll :: "'db store \<Rightarrow> 'db \<Rightarrow> js_object \<Rightarrow> (error + row list) \<times> 'db" where
  "Job_findAll query db options =
     (case Job_findAll_query options of
        Inl e \<Rightarrow> (Inl e, db)
      | Inr (search, values) \<Rightarrow> db_query query db search values)"

text \<open>\<^verbatim>\<open>Job.get(title)\<close>.\<close>

definition Job_get_sql :: string where
  \<open>Job_get_sql =
     ''SELECT title,\<newline>                  salary,\<newline>                  equity,\<newline>                  company_handle AS "companyHandle"\<newline>           FROM jobs\<newline>           WHERE title = $1''\<close>

definition Job_get :: "'db store \<Rightarrow> 'db \<Rightarrow> string \<Rightarrow> (error + row) \<times> 'db" where
  "Job_get query db title =
     (case db_query query db Job_get_sql [JStr title] of
        (Inl e, db') \<Rightarrow> (Inl e, db')
      | (Inr rows, db') \<Rightarrow>
          (case rows of
             [] \<Rightarrow> (Inl (NotFoundError (''No job: '' @ title)), db')
           | job # _ \<Rightarrow> (Inr job, db')))"

text \<open>
  \<^verbatim>\<open>Job.update(title, data)\<close>. The text of the statement is the template literal of the
  source with \<^verbatim>\<open>setCols\<close> and \<^verbatim>\<open>titleVarIdx\<close> spliced in.
\<close>

definition Job_update_jsToSql :: js_object where
  "Job_update_jsToSql = [(''salary'', JStr ''salary''), (''equity'', JStr ''equity'')]"

definition Job_update_sql :: "string \<Rightarrow> string \<Rightarrow> string" where
  "Job_update_sql setCols titleVarIdx =
     ''UPDATE companies \<newline>                      SET '' @ setCols
     @ '' \<newline>                      WHERE title = '' @ titleVarIdx
     @ '' \<newline>                      RETURNING title, \<newline>                                salary, \<newline>                                equity ''"

definition Job_update :: "'db store \<Rightarrow> 'db \<Rightarrow> string \<Rightarrow> js_object \<Rightarrow> (error + row) \<times> 'db" where
  "Job_update query db title data =
     (case sqlForPartialUpdate data Job_update_jsToSql of
        Inl e \<Rightarrow> (Inl e, db)
      | Inr (setCols, values) \<Rightarrow>
          (let titleVarIdx = ''$'' @ string_of_nat (length values + 1);
               querySql = Job_update_sql setCols titleVarIdx
           in case db_query query db querySql (values @ [JStr title]) of
                (Inl e, db') \<Rightarrow> (Inl e, db')
              | (Inr rows, db') \<Rightarrow>
                  (case rows of
                     [] \<Rightarrow> (Inl (NotFoundError (''No job: '' @ title)), db')
                   | job # _ \<Rightarrow> (Inr job, db'))))"

text \<open>
  \<^verbatim>\<open>Job.remove(title)\<close>. The message of its error is built from \<^verbatim>\<open>handle\<close>, an
  identifier that is declared nowhere in the module: reading it throws a
  \<^verbatim>\<open>ReferenceError\<close> before the \<^verbatim>\<open>NotFoundError\<close> is constructed.
\<close>

definition Job_remove_sql :: string where
  "Job_remove_sql =
     ''DELETE\<newline>           FROM jobs\<newline>           WHERE title = $1\<newline>           RETURNING title''"

definition Job_remove :: "'db store \<Rightarrow> 'db \<Rightarrow> string \<Rightarrow> (error + unit) \<times> 'db" where
  "Job_remove query db title =
     (case db_query query db Job_remove_sql [JStr title] of
        (Inl e, db') \<Rightarrow> (Inl e, db')
      | (Inr rows, db') \<Rightarrow>
          (case rows of
             [] \<Rightarrow> (Inl (ReferenceError ''handle is not defined''), db')
           | company # _ \<Rightarrow> (Inr (), db')))"

section \<open>Placeholders of a statement\<close>

text \<open>
  The positional placeholders of a statement, in the order they occur: a \<^verbatim>\<open>$\<close> followed
  by decimal digits, outside double-quoted identifiers. The flag says whether the scan is
  inside a quoted identifier. A state of the assembly is aligned when its text holds the
  placeholders 1, 2, ..., n in this order, n being the number of bind values.
\<close>

fun placeholders :: "bool \<Rightarrow> string \<Rightarrow> nat list" where
  "placeholders q [] = []"
| "placeholders True (c # cs) =
     (if c = CHR 0x22 then placeholders False cs else placeholders True cs)"
| "placeholders False (c # cs) =
     (if c = CHR 0x22 then placeholders True cs
      else if c = CHR ''$'' \<and> (case cs of [] \<Rightarrow> False | d # _ \<Rightarrow> is_digit d)
      then fst (read_num 0 cs) # placeholders False cs
      else placeholders False cs)"

definition aligned :: "query_state \<Rightarrow> bool" where
  "aligned st = (placeholders False (fst st) = [1 ..< Suc (length (snd st))])"

text \<open>
  A step from \<open>st\<close> to \<open>st'\<close> binds the next value when it appends one bind value and
  a fragment whose only placeholder carries the number of that value, which is the length
  of the value list before the step plus one.
\<close>

definition binds_next :: "query_state \<Rightarrow> query_state \<Rightarrow> bool" where
  "binds_next st st' =
     (length (snd st') = length (snd st) + 1
      \<and> take (length (snd st)) (snd st') = snd st
      \<and> take (length (fst st)) (fst st') = fst st
      \<and> placeholders False (drop (length (fst st)) (fst st')) = [length (snd st) + 1])"

section \<open>Validation of the filters\<close>

lemma db_query_not_ExpressError:
  "fst (db_query query db text values) \<noteq> Inl (ExpressError m s)"
  by (simp add: db_query_def split: prod.splits sum.splits)

lemma invalidFilters_empty:
  "(length (filter (\<lambda>f. \<not> List.member vs f) ks) > 0) = (\<not> set ks \<subseteq> set vs)"
  by (auto simp: filter_empty_conv)

lemma Company_findAll_query_InvalidFilter:
  "(Company_findAll_query options = Inl InvalidFilter)
     = (\<not> set (Object_keys options) \<subseteq> set Company_validFilters)"
  unfolding Company_findAll_query_def Let_def invalidFilters_empty InvalidFilter_def
  by (simp split: prod.splits)

lemma Job_findAll_query_InvalidFilter:
  "(Job_findAll_query options = Inl InvalidFilter)
     = (\<not> set (Object_keys options) \<subseteq> set Job_validFilters)"
  unfolding Job_findAll_query_def Let_def invalidFilters_empty InvalidFilter_def
  by (simp split: prod.splits)

text \<open>
  C8. \<^verbatim>\<open>findAll\<close> fails with \<open>InvalidFilter\<close> (an \<open>ExpressError\<close> of status 400)
  exactly when some key of the options lies outside the allow-list of the entity; a
  mapping whose keys all lie in the allow-list is never rejected with \<open>InvalidFilter\<close>.
  This holds for companies and for jobs, whatever the store answers.
\<close>

theorem findAll_InvalidFilter_iff:
  "(fst (Company_findAll query db options) = Inl InvalidFilter)
     = (\<not> set (Object_keys options) \<subseteq> set Company_validFilters)
   \<and> (fst (Job_findAll query' db' options') = Inl InvalidFilter)
     = (\<not> set (Object_keys options') \<subseteq> set Job_validFilters)"
proof
  show "(fst (Company_findAll query db options) = Inl InvalidFilter)
     = (\<not> set (Object_keys options) \<subseteq> set Company_validFilters)"
    using Company_findAll_query_InvalidFilter [of options]
      db_query_not_ExpressError [of query db _ _ "''Invalid filter option''" 400]
    by (auto simp: Company_findAll_def InvalidFilter_def split: sum.splits prod.splits)
  show "(fst (Job_findAll query' db' options') = Inl InvalidFilter)
     = (\<not> set (Object_keys options') \<subseteq> set Job_validFilters)"
    using Job_findAll_query_InvalidFilter [of options']
      db_query_not_ExpressError [of query' db' _ _ "''Invalid filter option''" 400]
    by (auto simp: Job_findAll_def InvalidFilter_def split: sum.splits prod.splits)
qed

theorem findAll_InvalidFilter_iff_witness:
  "fst (Company_findAll (logging_store []) [] [(''foo'', JStr ''bar'')]) = Inl InvalidFilter
   \<and> fst (Job_findAll (logging_store []) []
            [(''title'', JStr ''t''), (''hasEquity'', JBool True)]) \<noteq> Inl InvalidFilter"
  using findAll_InvalidFilter_iff [of "logging_store []" "[]" "[(''foo'', JStr ''bar'')]"
      "logging_store []" "[]" "[(''title'', JStr ''t''), (''hasEquity'', JBool True)]"]
  by (simp add: Object_keys_def Company_validFilters_def Job_validFilters_def)

lemma js_gt_JNum: "js_gt (JNum a) (JNum b) = (b < a)"
  by (simp add: js_gt_def dec_less_def)

lemma Company_findAll_query_conflict:
  assumes "set (Object_keys options) \<subseteq> set Company_validFilters"
    and "js_get options ''minEmployees'' = JNum lo"
    and "js_get options ''maxEmployees'' = JNum hi"
    and "hi < lo"
  shows "Company_findAll_query options = Inl FilterConflict"
  using assms unfolding Company_findAll_query_def Let_def invalidFilters_empty FilterConflict_def
  by (simp add: js_gt_JNum)

lemma Company_findAll_ExpressError_no_query:
  assumes "fst (Company_findAll query db options) = Inl (ExpressError m s)"
  shows "Company_findAll query db options = (Inl (ExpressError m s), db)"
proof (cases "Company_findAll_query options")
  case (Inl e)
  with assms show ?thesis by (simp add: Company_findAll_def)
next
  case (Inr st)
  with assms db_query_not_ExpressError [of query db "fst st" "snd st" m s] show ?thesis
    by (simp add: Company_findAll_def split: prod.splits)
qed

text \<open>
  C9, as the code has it. The allow-list is checked first, so a mapping that also holds an
  unrecognised key fails with \<open>InvalidFilter\<close>. For every companies option mapping whose
  keys all lie in the allow-list and whose \<^verbatim>\<open>minEmployees\<close> and \<^verbatim>\<open>maxEmployees\<close> are
  integers with minimum above maximum, \<^verbatim>\<open>Company.findAll\<close> fails with \<open>FilterConflict\<close>
  (status 400); and whenever \<^verbatim>\<open>Company.findAll\<close> fails with a validation error (an
  \<open>ExpressError\<close>), the store is left in the state it was in: no statement reached it.
\<close>

theorem Company_findAll_FilterConflict:
  assumes "set (Object_keys options) \<subseteq> set Company_validFilters"
    and "js_get options ''minEmployees'' = JNum lo"
    and "js_get options ''maxEmployees'' = JNum hi"
    and "hi < lo"
  shows "Company_findAll query db options = (Inl FilterConflict, db)
    \<and> (\<forall>opts m s. fst (Company_findAll query db opts) = Inl (ExpressError m s)
          \<longrightarrow> snd (Company_findAll query db opts) = db)"
proof
  show "Company_findAll query db options = (Inl FilterConflict, db)"
    using Company_findAll_query_conflict [OF assms] by (simp add: Company_findAll_def)
  show "\<forall>opts m s. fst (Company_findAll query db opts) = Inl (ExpressError m s)
          \<longrightarrow> snd (Company_findAll query db opts) = db"
  proof (intro allI impI)
    fix opts m s
    assume "fst (Company_findAll query db opts) = Inl (ExpressError m s)"
    from Company_findAll_ExpressError_no_query [OF this]
    show "snd (Company_findAll query db opts) = db" by simp
  qed
qed

theorem Company_findAll_FilterConflict_witness:
  "Company_findAll (logging_store []) []
      [(''minEmployees'', JNum 100), (''maxEmployees'', JNum 50)] = (Inl FilterConflict, [])
   \<and> snd (Company_findAll (logging_store []) [] [(''foo'', JStr ''bar'')]) = []"
proof -
  have keys: "set (Object_keys [(''minEmployees'', JNum 100), (''maxEmployees'', JNum 50)])
      \<subseteq> set Company_validFilters"
    by (simp add: Object_keys_def Company_validFilters_def)
  have lo: "js_get [(''minEmployees'', JNum 100), (''maxEmployees'', JNum 50)] ''minEmployees''
      = JNum 100"
    by (simp add: js_get_def)
  have hi: "js_get [(''minEmployees'', JNum 100), (''maxEmployees'', JNum 50)] ''maxEmployees''
      = JNum 50"
    by (simp add: js_get_def)
  have bad: "fst (Company_findAll (logging_store []) [] [(''foo'', JStr ''bar'')])
      = Inl (ExpressError ''Invalid filter option'' 400)"
    by code_simp
  from Company_findAll_FilterConflict [OF keys lo hi, of "logging_store []" "[]"] bad
  show ?thesis by simp
qed

text \<open>
  The claim as the specification words it fails where a conflicting pair of bounds comes
  with an unrecognised key: the failure is \<open>InvalidFilter\<close>, not \<open>FilterConflict\<close>.
\<close>

theorem Company_findAll_FilterConflict_counterexample:
  "Company_findAll (logging_store []) []
      [(''minEmployees'', JNum 100), (''maxEmployees'', JNum 50), (''foo'', JStr ''bar'')]
     = (Inl InvalidFilter, [])
   \<and> InvalidFilter \<noteq> FilterConflict"
  unfolding InvalidFilter_def FilterConflict_def by code_simp

section \<open>The assembled statements\<close>

text \<open>
  C3. The text \<^verbatim>\<open>findAll\<close> assembles does not separate its clauses by white space: the
  base selection ends in the name of the table, the fragments of the text filters and the
  ordering clause begin with their keyword, and nothing is put between them. With no
  filter the statement of companies ends in \<^verbatim>\<open>FROM companiesORDER BY name\<close>; with a title
  filter the one of jobs reads \<^verbatim>\<open>FROM jobsWHERE title ILIKE $1ORDER BY title\<close>.
\<close>

theorem findAll_no_filters_text:
  \<open>Company_findAll_query [] =
     Inr (''SELECT handle,\<newline>                      name,\<newline>                      description,\<newline>                      num_employees AS "numEmployees",\<newline>                      logo_url AS "logoUrl"\<newline>               FROM companiesORDER BY name'', [])
   \<and> Job_findAll_query [(''title'', JStr ''t'')] =
     Inr (''SELECT title,\<newline>                      salary,\<newline>                      equity,\<newline>                      company_handle AS "companyHandle"\<newline>               FROM jobsWHERE title ILIKE $1ORDER BY title'', [JStr ''%t%''])\<close>
  by code_simp

text \<open>
  C4. With both bounds given, 50 and 100, \<^verbatim>\<open>Company.findAll\<close> binds the two values in the
  order minimum, maximum, but the fragment of the maximum compares with \<^verbatim>\<open>>=\<close>: the
  clause asks for \<^verbatim>\<open>num_employees >= $1\<close> and \<^verbatim>\<open>num_employees >=$2\<close>, and its tokens
  run into each other.
\<close>

theorem Company_findAll_range_text:
  "Company_findAll_query [(''minEmployees'', JNum 50), (''maxEmployees'', JNum 100)] =
     Inr (Company_findAll_base
            @ ''WHERE num_employees >= $1AND num_employees >=$2ORDER BY name'',
          [JNum 50, JNum 100])"
  by code_simp




section \<open>Placeholders and bind values\<close>

subsection \<open>Decimal numerals\<close>

lemma digit_char_props:
  assumes "d < 10"
  shows "is_digit (digit_char d)" and "digit_val (digit_char d) = d"
  using assms by (auto simp: is_digit_def digit_val_def digit_char_def)

lemma is_digit_not_special: "is_digit c \<Longrightarrow> c \<noteq> CHR ''$'' \<and> c \<noteq> CHR 0x22"
  by (auto simp: is_digit_def)

lemma string_of_nat_digits: "\<forall>c \<in> set (string_of_nat n). is_digit c"
proof (induction n rule: string_of_nat.induct)
  case (1 n)
  show ?case
  proof (cases "n < 10")
    case True
    then show ?thesis by (subst string_of_nat.simps) (simp add: digit_char_props)
  next
    case False
    with 1 show ?thesis by (subst string_of_nat.simps) (simp add: digit_char_props)
  qed
qed

lemma string_of_nat_not_Nil: "string_of_nat n \<noteq> []"
  by (subst string_of_nat.simps) simp

text \<open>Reading back a numeral gives the number it was printed from.\<close>

lemma read_num_string_of_nat:
  "read_num acc (string_of_nat n @ rest)
     = read_num (acc * 10 ^ length (string_of_nat n) + n) rest"
proof (induction n arbitrary: acc rest rule: string_of_nat.induct)
  case (1 n)
  show ?case
  proof (cases "n < 10")
    case True
    then show ?thesis
      by (subst (1 2) string_of_nat.simps) (simp add: digit_char_props mult.commute)
  next
    case False
    have "read_num acc (string_of_nat n @ rest)
        = read_num acc (string_of_nat (n div 10) @ digit_char (n mod 10) # rest)"
      using False by (subst string_of_nat.simps) simp
    also have "\<dots> = read_num (acc * 10 ^ length (string_of_nat (n div 10)) + n div 10)
                       (digit_char (n mod 10) # rest)"
      using 1 [OF False] by simp
    also have "\<dots> = read_num
        (10 * (acc * 10 ^ length (string_of_nat (n div 10)) + n div 10) + n mod 10) rest"
      by (simp add: digit_char_props)
    also have "10 * (acc * 10 ^ length (string_of_nat (n div 10)) + n div 10) + n mod 10
        = acc * 10 ^ length (string_of_nat n) + n"
      using False by (subst (2) string_of_nat.simps) (simp add: algebra_simps)
    finally show ?thesis .
  qed
qed

lemma read_num_stop:
  "rest = [] \<or> \<not> is_digit (hd rest) \<Longrightarrow> read_num acc rest = (acc, rest)"
  by (cases rest) auto

lemma fst_read_num_string_of_nat:
  "rest = [] \<or> \<not> is_digit (hd rest) \<Longrightarrow> fst (read_num 0 (string_of_nat n @ rest)) = n"
  by (simp add: read_num_string_of_nat read_num_stop)

subsection \<open>Scanning a statement\<close>

lemma placeholders_digits:
  "\<forall>c \<in> set ds. is_digit c \<Longrightarrow> placeholders False (ds @ rest) = placeholders False rest"
  by (induction ds) (auto simp: is_digit_not_special)

lemma placeholders_quoted:
  "CHR 0x22 \<notin> set col \<Longrightarrow> placeholders True (col @ CHR 0x22 # rest) = placeholders False rest"
  by (induction col) auto

lemma placeholders_dollar_num:
  assumes "rest = [] \<or> \<not> is_digit (hd rest)"
  shows "placeholders False (CHR ''$'' # string_of_nat n @ rest) = n # placeholders False rest"
proof -
  obtain d ds where ds: "string_of_nat n = d # ds"
    using string_of_nat_not_Nil [of n] by (cases "string_of_nat n") auto
  have "is_digit d" using string_of_nat_digits [of n] ds by simp
  then show ?thesis
    using fst_read_num_string_of_nat [OF assms, of n]
      placeholders_digits [OF string_of_nat_digits, of n rest]
    by (simp add: ds)
qed

lemma placeholders_fragment:
  assumes "CHR 0x22 \<notin> set col" and "rest = [] \<or> \<not> is_digit (hd rest)"
  shows "placeholders False
           (CHR 0x22 # col @ CHR 0x22 # CHR ''='' # CHR ''$'' # string_of_nat n @ rest)
      = n # placeholders False rest"
  using placeholders_quoted [OF assms(1)] placeholders_dollar_num [OF assms(2)]
    string_of_nat_not_Nil [of n]
  by (simp add: is_digit_def)

subsection \<open>The assignments of a partial update\<close>

lemma cols_Cons:
  "map (\<lambda>(colName, idx). f colName idx) (zip (k # ks) [i ..< i + length (k # ks)])
     = f k i # map (\<lambda>(colName, idx). f colName idx) (zip ks [Suc i ..< Suc i + length ks])"
  by (simp add: upt_conv_Cons del: upt_Suc)

lemma placeholders_join_cols:
  assumes "\<forall>k \<in> set ks. CHR 0x22 \<notin> set (g k)"
  shows "placeholders False
           (join '', ''
              (map (\<lambda>(colName, idx).
                      CHR 0x22 # g colName @ CHR 0x22 # CHR ''='' # CHR ''$''
                        # string_of_nat (idx + 1))
                 (zip ks [i ..< i + length ks])))
         = [Suc i ..< Suc (i + length ks)]"
  using assms
proof (induction ks arbitrary: i)
  case Nil
  then show ?case by simp
next
  case (Cons k ks)
  show ?case
  proof (cases ks)
    case Nil
    have "placeholders False
            (CHR 0x22 # g k @ CHR 0x22 # CHR ''='' # CHR ''$'' # string_of_nat (Suc i) @ [])
        = [Suc i]"
      using Cons.prems by (subst placeholders_fragment) simp_all
    with Nil show ?thesis by (simp add: upt_conv_Cons del: upt_Suc)
  next
    case (Cons k' ks')
    let ?f = "\<lambda>colName idx.
      CHR 0x22 # g colName @ CHR 0x22 # CHR ''='' # CHR ''$'' # string_of_nat (idx + 1)"
    let ?tail = "join '', ''
      (map (\<lambda>(colName, idx). ?f colName idx) (zip ks [Suc i ..< Suc i + length ks]))"
    have tail: "placeholders False ?tail = [Suc (Suc i) ..< Suc (Suc i + length ks)]"
      using Cons.IH [of "Suc i"] Cons.prems by simp
    have shape: "join '', ''
          (map (\<lambda>(colName, idx). ?f colName idx) (zip (k # ks) [i ..< i + length (k # ks)]))
        = CHR 0x22 # g k @ CHR 0x22 # CHR ''='' # CHR ''$'' # string_of_nat (Suc i)
            @ ('', '' @ ?tail)"
      unfolding cols_Cons using Cons by (simp add: upt_conv_Cons del: upt_Suc)
    have "placeholders False
            (CHR 0x22 # g k @ CHR 0x22 # CHR ''='' # CHR ''$'' # string_of_nat (Suc i)
               @ ('', '' @ ?tail))
        = Suc i # placeholders False ('', '' @ ?tail)"
      using Cons.prems by (subst placeholders_fragment) (simp_all add: is_digit_def)
    also have "placeholders False ('', '' @ ?tail) = placeholders False ?tail"
      by simp
    finally show ?thesis
      unfolding shape tail by (simp add: upt_conv_Cons del: upt_Suc)
  qed
qed

lemma sqlForPartialUpdate_aligned:
  assumes "\<forall>k \<in> set (Object_keys dataToUpdate). CHR 0x22 \<notin> set (column_name jsToSql k)"
    and "sqlForPartialUpdate dataToUpdate jsToSql = Inr st"
  shows "aligned st"
proof -
  have "placeholders False (join '', '' (sqlForPartialUpdate_cols dataToUpdate jsToSql))
      = [Suc 0 ..< Suc (0 + length (Object_keys dataToUpdate))]"
    unfolding sqlForPartialUpdate_cols_def
    using placeholders_join_cols [OF assms(1), of 0] by simp
  with assms(2) show ?thesis
    by (auto simp: sqlForPartialUpdate_def aligned_def Let_def Object_keys_def Object_values_def
        split: if_splits)
qed

subsection \<open>The steps of the list statements\<close>

lemma placeholders_Company_base:
  "placeholders False (Company_findAll_base @ t) = placeholders False t"
  by (simp add: Company_findAll_base_def)

lemma placeholders_Job_base:
  "placeholders False (Job_findAll_base @ t) = placeholders False t"
  by (simp add: Job_findAll_base_def)

lemma string_of_nat_small:
  "string_of_nat (Suc 0) = ''1''" "string_of_nat (Suc (Suc 0)) = ''2''"
  "string_of_nat (Suc (Suc (Suc 0))) = ''3''"
  by code_simp+

lemma is_digit_chars:
  "is_digit CHR ''1''" "is_digit CHR ''2''" "is_digit CHR ''3''"
  "\<not> is_digit CHR ''A''" "\<not> is_digit CHR ''O''" "\<not> is_digit CHR '' ''"
  by (simp_all add: is_digit_def)

lemma digit_val_chars:
  "digit_val CHR ''1'' = 1" "digit_val CHR ''2'' = 2" "digit_val CHR ''3'' = 3"
  by (simp_all add: digit_val_def)

lemmas scan_simps = placeholders_Company_base placeholders_Job_base string_of_nat_small
  is_digit_chars digit_val_chars aligned_def binds_next_def
  placeholders_Company_base [of "[]", simplified] placeholders_Job_base [of "[]", simplified]

lemma Company_findAll_steps_aligned:
  "(let s0 = (Company_findAll_base, []);
        s1 = Company_name_step name s0;
        s2 = Company_minEmployees_step minEmployees s1;
        s3 = Company_maxEmployees_step maxEmployees s2
    in aligned s0 \<and> aligned s1 \<and> aligned s2 \<and> aligned s3
       \<and> aligned (fst s3 @ ''ORDER BY name'', snd s3)
       \<and> (truthy name \<longrightarrow> binds_next s0 s1)
       \<and> (truthy minEmployees \<longrightarrow> binds_next s1 s2)
       \<and> (truthy maxEmployees \<longrightarrow> binds_next s2 s3))"
  unfolding Let_def Company_name_step_def Company_minEmployees_step_def
    Company_maxEmployees_step_def
  by (cases "truthy name"; cases "truthy minEmployees"; cases "truthy maxEmployees")
     (simp_all add: scan_simps)

lemma Job_findAll_steps_aligned:
  "(let s0 = (Job_findAll_base, []);
        s1 = Job_title_step title s0;
        s2 = Job_minSalary_step minSalary s1;
        s3 = Job_hasEquity_step hasEquity s2
    in aligned s0 \<and> aligned s1 \<and> aligned s2 \<and> aligned s3
       \<and> aligned (fst s3 @ ''ORDER BY title'', snd s3)
       \<and> (truthy title \<longrightarrow> binds_next s0 s1)
       \<and> (truthy minSalary \<longrightarrow> binds_next s1 s2)
       \<and> snd s3 = snd s2)"
  unfolding Let_def Job_title_step_def Job_minSalary_step_def Job_hasEquity_step_def
  by (cases "truthy title"; cases "truthy minSalary"; cases "truthy hasEquity";
      cases "hasEquity = JUndefined")
     (simp_all add: scan_simps)

lemma Company_findAll_query_aligned:
  assumes "Company_findAll_query options = Inr st"
  shows "aligned st"
proof -
  let ?s3 = "Company_maxEmployees_step (js_get options ''maxEmployees'')
      (Company_minEmployees_step (js_get options ''minEmployees'')
        (Company_name_step (js_get options ''name'') (Company_findAll_base, [])))"
  have "aligned (fst ?s3 @ ''ORDER BY name'', snd ?s3)"
    using Company_findAll_steps_aligned
      [of "js_get options ''name''" "js_get options ''minEmployees''"
        "js_get options ''maxEmployees''"]
    unfolding Let_def by blast
  moreover have "st = (fst ?s3 @ ''ORDER BY name'', snd ?s3)"
    using assms unfolding Company_findAll_query_def Let_def
    by (auto split: if_splits prod.splits)
  ultimately show ?thesis by simp
qed

lemma Job_findAll_query_aligned:
  assumes "Job_findAll_query options = Inr st"
  shows "aligned st"
proof -
  let ?s3 = "Job_hasEquity_step (js_get options ''hasEquity'')
      (Job_minSalary_step (js_get options ''minSalary'')
        (Job_title_step (js_get options ''title'') (Job_findAll_base, [])))"
  have "aligned (fst ?s3 @ ''ORDER BY title'', snd ?s3)"
    using Job_findAll_steps_aligned
      [of "js_get options ''title''" "js_get options ''minSalary''"
        "js_get options ''hasEquity''"]
    unfolding Let_def by blast
  moreover have "st = (fst ?s3 @ ''ORDER BY title'', snd ?s3)"
    using assms unfolding Job_findAll_query_def Let_def
    by (auto split: if_splits prod.splits)
  ultimately show ?thesis by simp
qed

text \<open>
  C7, as the code has it. In \<^verbatim>\<open>findAll\<close> of companies and of jobs the state of the
  assembly is aligned at the start, after each of the three steps and after the ordering
  clause is appended: the placeholders of the text are 1, 2, ..., n in this order, n being
  the number of bind values. Every step that binds a value appends a fragment whose
  placeholder is the length of the value list before the step plus one, whichever filters
  are absent; the equity step binds nothing. Hence every statement \<^verbatim>\<open>findAll\<close> hands on
  is aligned. The result of \<^verbatim>\<open>sqlForPartialUpdate\<close> is aligned when no column name holds a
  double quote: the helper splices the names into the text unchecked, and a name with a
  quote in it can carry placeholders of its own.
\<close>

theorem placeholders_aligned:
  "(let s0 = (Company_findAll_base, []);
        s1 = Company_name_step name s0;
        s2 = Company_minEmployees_step minEmployees s1;
        s3 = Company_maxEmployees_step maxEmployees s2
    in aligned s0 \<and> aligned s1 \<and> aligned s2 \<and> aligned s3
       \<and> aligned (fst s3 @ ''ORDER BY name'', snd s3)
       \<and> (truthy name \<longrightarrow> binds_next s0 s1)
       \<and> (truthy minEmployees \<longrightarrow> binds_next s1 s2)
       \<and> (truthy maxEmployees \<longrightarrow> binds_next s2 s3))
   \<and> (let t0 = (Job_findAll_base, []);
        t1 = Job_title_step title t0;
        t2 = Job_minSalary_step minSalary t1;
        t3 = Job_hasEquity_step hasEquity t2
    in aligned t0 \<and> aligned t1 \<and> aligned t2 \<and> aligned t3
       \<and> aligned (fst t3 @ ''ORDER BY title'', snd t3)
       \<and> (truthy title \<longrightarrow> binds_next t0 t1)
       \<and> (truthy minSalary \<longrightarrow> binds_next t1 t2)
       \<and> snd t3 = snd t2)
   \<and> (Company_findAll_query options = Inr st \<longrightarrow> aligned st)
   \<and> (Job_findAll_query options' = Inr st' \<longrightarrow> aligned st')
   \<and> ((\<forall>k \<in> set (Object_keys dataToUpdate). CHR 0x22 \<notin> set (column_name jsToSql k))
        \<and> sqlForPartialUpdate dataToUpdate jsToSql = Inr st'' \<longrightarrow> aligned st'')"
  using Company_findAll_steps_aligned [of name minEmployees maxEmployees]
    Job_findAll_steps_aligned [of title minSalary hasEquity]
    Company_findAll_query_aligned [of options st] Job_findAll_query_aligned [of options' st']
    sqlForPartialUpdate_aligned [of dataToUpdate jsToSql st'']
  by blast

theorem placeholders_aligned_witness:
  \<open>placeholders False
      (Company_findAll_base
         @ ''WHERE name ILIKE $1AND num_employees >= $2AND num_employees >=$3ORDER BY name'')
     = [1, 2, 3]
   \<and> placeholders False (Job_findAll_base @ '' WHERE salary >= $1 AND equity > 0ORDER BY title'')
     = [1]
   \<and> placeholders False ''"first_name"=$1, "age"=$2'' = [1, 2]\<close>
proof -
  have c: "Company_findAll_query
      [(''name'', JStr ''net''), (''minEmployees'', JNum 50), (''maxEmployees'', JNum 100)]
      = Inr (Company_findAll_base
         @ ''WHERE name ILIKE $1AND num_employees >= $2AND num_employees >=$3ORDER BY name'',
         [JStr ''%net%'', JNum 50, JNum 100])"
    by code_simp
  have j: "Job_findAll_query [(''minSalary'', JNum 10), (''hasEquity'', JBool True)]
      = Inr (Job_findAll_base @ '' WHERE salary >= $1 AND equity > 0ORDER BY title'', [JNum 10])"
    by code_simp
  have u: \<open>sqlForPartialUpdate [(''firstName'', JStr ''Aliya''), (''age'', JNum 32)]
        [(''firstName'', JStr ''first_name'')]
      = Inr (''"first_name"=$1, "age"=$2'', [JStr ''Aliya'', JNum 32])\<close>
    by code_simp
  have q: "\<forall>k \<in> set (Object_keys [(''firstName'', JStr ''Aliya''), (''age'', JNum 32)]).
      CHR 0x22 \<notin> set (column_name [(''firstName'', JStr ''first_name'')] k)"
    by (simp add: Object_keys_def column_name_def js_get_def Object_prototype_def)
  have \<open>aligned (Company_findAll_base
         @ ''WHERE name ILIKE $1AND num_employees >= $2AND num_employees >=$3ORDER BY name'',
         [JStr ''%net%'', JNum 50, JNum 100])
      \<and> aligned (Job_findAll_base @ '' WHERE salary >= $1 AND equity > 0ORDER BY title'',
         [JNum 10])
      \<and> aligned (''"first_name"=$1, "age"=$2'', [JStr ''Aliya'', JNum 32])\<close>
    using placeholders_aligned [of JUndefined JUndefined JUndefined JUndefined JUndefined JUndefined
      "[(''name'', JStr ''net''), (''minEmployees'', JNum 50), (''maxEmployees'', JNum 100)]"
      "(Company_findAll_base
         @ ''WHERE name ILIKE $1AND num_employees >= $2AND num_employees >=$3ORDER BY name'',
         [JStr ''%net%'', JNum 50, JNum 100])"
      "[(''minSalary'', JNum 10), (''hasEquity'', JBool True)]"
      "(Job_findAll_base @ '' WHERE salary >= $1 AND equity > 0ORDER BY title'', [JNum 10])"
      "[(''firstName'', JStr ''Aliya''), (''age'', JNum 32)]"
      "[(''firstName'', JStr ''first_name'')]"
      "(''\"first_name\"=$1, \"age\"=$2'', [JStr ''Aliya'', JNum 32])"]
      c j u q
    by blast
  then show ?thesis by (simp add: aligned_def)
qed

text \<open>
  The claim as the specification words it fails for \<^verbatim>\<open>sqlForPartialUpdate\<close> on a key that
  closes the quoted identifier: the one value is bound, and the placeholders of the text
  are 2 and 1.
\<close>

theorem placeholders_aligned_counterexample:
  \<open>sqlForPartialUpdate [(''a"=$2, "b'', JNum 7)] [] = Inr (''"a"=$2, "b"=$1'', [JNum 7])
   \<and> placeholders False ''"a"=$2, "b"=$1'' = [2, 1]
   \<and> \<not> aligned (''"a"=$2, "b"=$1'', [JNum 7])\<close>
  by code_simp

section \<open>The fragments of a partial update\<close>

lemma sqlForPartialUpdate_cols_nth:
  assumes "i < length dataToUpdate"
  shows "sqlForPartialUpdate_cols dataToUpdate jsToSql ! i
      = CHR 0x22 # column_name jsToSql (fst (dataToUpdate ! i))
          @ CHR 0x22 # CHR ''='' # CHR ''$'' # string_of_nat (i + 1)"
  using assms by (simp add: sqlForPartialUpdate_cols_def Object_keys_def)

text \<open>
  C6, as the code has it. For every non-empty field mapping and every alias table,
  \<^verbatim>\<open>sqlForPartialUpdate\<close> succeeds with the fragments joined by a comma and a space, and
  with the values of the mapping; there are as many fragments and as many values as the
  mapping has keys, in the order of the keys; the fragment at position N (counted from 1)
  is the quoted column name of the Nth key followed by \<^verbatim>\<open>=$N\<close>. The column name is the
  alias where the table holds a non-empty string for the key, and the key itself where the
  alias is the empty string or where the table holds none (for a key that is not a member
  name inherited from \<^verbatim>\<open>Object.prototype\<close>). The scenario of the specification yields the
  fragments and values it states.
\<close>

theorem sqlForPartialUpdate_fragments:
  assumes "dataToUpdate \<noteq> []"
  shows \<open>sqlForPartialUpdate dataToUpdate jsToSql
           = Inr (join '', '' (sqlForPartialUpdate_cols dataToUpdate jsToSql),
                  Object_values dataToUpdate)
     \<and> length (sqlForPartialUpdate_cols dataToUpdate jsToSql) = length dataToUpdate
     \<and> length (Object_values dataToUpdate) = length dataToUpdate
     \<and> (\<forall>i < length dataToUpdate.
           sqlForPartialUpdate_cols dataToUpdate jsToSql ! i
             = ''"'' @ column_name jsToSql (Object_keys dataToUpdate ! i) @ ''"=$''
                 @ string_of_nat (i + 1)
           \<and> Object_keys dataToUpdate ! i = fst (dataToUpdate ! i)
           \<and> Object_values dataToUpdate ! i = snd (dataToUpdate ! i))
     \<and> (\<forall>k a. map_of jsToSql k = Some (JStr a) \<and> a \<noteq> [] \<longrightarrow> column_name jsToSql k = a)
     \<and> (\<forall>k. map_of jsToSql k = Some (JStr []) \<longrightarrow> column_name jsToSql k = k)
     \<and> (\<forall>k. map_of jsToSql k = None \<and> Object_prototype k = JUndefined
            \<longrightarrow> column_name jsToSql k = k)
     \<and> sqlForPartialUpdate_cols [(''firstName'', JStr ''Aliya''), (''age'', JNum 32)]
           [(''firstName'', JStr ''first_name'')]
         = [''"first_name"=$1'', ''"age"=$2'']
     \<and> sqlForPartialUpdate [(''firstName'', JStr ''Aliya''), (''age'', JNum 32)]
           [(''firstName'', JStr ''first_name'')]
         = Inr (''"first_name"=$1, "age"=$2'', [JStr ''Aliya'', JNum 32])\<close>
proof (intro conjI)
  show "sqlForPartialUpdate dataToUpdate jsToSql
      = Inr (join '', '' (sqlForPartialUpdate_cols dataToUpdate jsToSql),
             Object_values dataToUpdate)"
    using assms by (simp add: sqlForPartialUpdate_def Object_keys_def)
  show "length (sqlForPartialUpdate_cols dataToUpdate jsToSql) = length dataToUpdate"
    by (simp add: sqlForPartialUpdate_cols_def Object_keys_def)
  show "length (Object_values dataToUpdate) = length dataToUpdate"
    by (simp add: Object_values_def)
  show \<open>\<forall>i < length dataToUpdate.
           sqlForPartialUpdate_cols dataToUpdate jsToSql ! i
             = ''"'' @ column_name jsToSql (Object_keys dataToUpdate ! i) @ ''"=$''
                 @ string_of_nat (i + 1)
           \<and> Object_keys dataToUpdate ! i = fst (dataToUpdate ! i)
           \<and> Object_values dataToUpdate ! i = snd (dataToUpdate ! i)\<close>
    by (simp add: sqlForPartialUpdate_cols_nth Object_keys_def Object_values_def)
  show "\<forall>k a. map_of jsToSql k = Some (JStr a) \<and> a \<noteq> [] \<longrightarrow> column_name jsToSql k = a"
    by (simp add: column_name_def js_get_def)
  show "\<forall>k. map_of jsToSql k = Some (JStr []) \<longrightarrow> column_name jsToSql k = k"
    by (simp add: column_name_def js_get_def)
  show "\<forall>k. map_of jsToSql k = None \<and> Object_prototype k = JUndefined
            \<longrightarrow> column_name jsToSql k = k"
    by (simp add: column_name_def js_get_def)
  show \<open>sqlForPartialUpdate_cols [(''firstName'', JStr ''Aliya''), (''age'', JNum 32)]
           [(''firstName'', JStr ''first_name'')]
         = [''"first_name"=$1'', ''"age"=$2'']\<close>
    by code_simp
  show \<open>sqlForPartialUpdate [(''firstName'', JStr ''Aliya''), (''age'', JNum 32)]
           [(''firstName'', JStr ''first_name'')]
         = Inr (''"first_name"=$1, "age"=$2'', [JStr ''Aliya'', JNum 32])\<close>
    by code_simp
qed

theorem sqlForPartialUpdate_fragments_witness:
  \<open>sqlForPartialUpdate [(''name'', JStr ''C1-new''), (''numEmployees'', JNum 10)]
       [(''numEmployees'', JStr ''num_employees''), (''logoUrl'', JStr ''logo_url'')]
     = Inr (''"name"=$1, "num_employees"=$2'', [JStr ''C1-new'', JNum 10])
   \<and> column_name [(''numEmployees'', JStr ''num_employees''), (''logoUrl'', JStr ''logo_url'')]
         ''numEmployees'' = ''num_employees''
   \<and> column_name [(''numEmployees'', JStr ''num_employees''), (''logoUrl'', JStr ''logo_url'')]
         ''name'' = ''name''\<close>
proof -
  let ?data = "[(''name'', JStr ''C1-new''), (''numEmployees'', JNum 10)]"
  let ?jsToSql = "[(''numEmployees'', JStr ''num_employees''), (''logoUrl'', JStr ''logo_url'')]"
  have ne: "?data \<noteq> []" by simp
  have j: \<open>join '', '' (sqlForPartialUpdate_cols ?data ?jsToSql)
      = ''"name"=$1, "num_employees"=$2''\<close>
    by code_simp
  have v: "Object_values ?data = [JStr ''C1-new'', JNum 10]"
    by (simp add: Object_values_def)
  have a: "map_of ?jsToSql ''numEmployees'' = Some (JStr ''num_employees'')
      \<and> ''num_employees'' \<noteq> []"
    by simp
  have n: "map_of ?jsToSql ''name'' = None \<and> Object_prototype ''name'' = JUndefined"
    by (simp add: Object_prototype_def)
  note t = sqlForPartialUpdate_fragments [OF ne, of ?jsToSql]
  from t have "sqlForPartialUpdate ?data ?jsToSql
     = Inr (join '', '' (sqlForPartialUpdate_cols ?data ?jsToSql), Object_values ?data)"
    by blast
  moreover from t a have "column_name ?jsToSql ''numEmployees'' = ''num_employees''"
    by blast
  moreover from t n have "column_name ?jsToSql ''name'' = ''name''"
    by blast
  ultimately show ?thesis by (simp add: j v)
qed

text \<open>
  The claim as the specification words it fails where the alias of a key is the empty
  string: the alias is present, and the column of the fragment is the key.
\<close>

theorem sqlForPartialUpdate_fragments_counterexample:
  \<open>js_get [(''a'', JStr '''')] ''a'' = JStr ''''
   \<and> sqlForPartialUpdate [(''a'', JNum 1)] [(''a'', JStr '''')] = Inr (''"a"=$1'', [JNum 1])
   \<and> sqlForPartialUpdate [(''a'', JNum 1)] [(''a'', JStr '''')] \<noteq> Inr (''""=$1'', [JNum 1])\<close>
  by code_simp

section \<open>Lookup, update and removal\<close>

lemma Company_get_never_NotFound:
  "fst (Company_get query db handle) \<noteq> Inl (NotFoundError msg)"
  by (simp add: Company_get_def db_query_def Array_truthy_def split: prod.splits sum.splits)

text \<open>
  C1. \<^verbatim>\<open>Company.get\<close> of a handle for which the store answers no row does not fail with
  \<open>NotFoundError\<close>: it returns the empty array. (No answer of the store makes it fail so,
  as the lemma above says.)
\<close>

theorem Company_get_absent_handle:
  "Company_get (logging_store []) [] ''nope'' = (Inr [], [(Company_get_sql, [JStr ''nope''])])"
  by (simp add: Company_get_def db_query_def logging_store_def Array_truthy_def)

text \<open>
  C2. The statement \<^verbatim>\<open>Job.update\<close> hands to the store for the title \<^verbatim>\<open>t\<close> and the data
  \<^verbatim>\<open>{salary: 100}\<close> updates the table \<^verbatim>\<open>companies\<close>, not \<^verbatim>\<open>jobs\<close>.
\<close>

theorem Job_update_targets_companies:
  \<open>Job_update (logging_store []) [] ''t'' [(''salary'', JNum 100)] =
     (Inl (NotFoundError ''No job: t''),
      [(''UPDATE companies \<newline>                      SET "salary"=$1 \<newline>                      WHERE title = $2 \<newline>                      RETURNING title, \<newline>                                salary, \<newline>                                equity '',
        [JNum 100, JStr ''t''])])\<close>
  by code_simp

text \<open>
  C5. \<^verbatim>\<open>Job.remove\<close> of a title for which the store deletes no row fails with a
  \<open>ReferenceError\<close>, not with \<open>NotFoundError\<close>; \<^verbatim>\<open>Company.remove\<close> of such a handle fails
  with \<open>NotFoundError\<close>.
\<close>

theorem Job_remove_absent_title:
  "Job_remove (logging_store []) [] ''nope'' =
     (Inl (ReferenceError ''handle is not defined''), [(Job_remove_sql, [JStr ''nope''])])
   \<and> Company_remove (logging_store []) [] ''nope'' =
     (Inl (NotFoundError ''No company: nope''), [(Company_remove_sql, [JStr ''nope''])])"
  by (simp add: Job_remove_def Company_remove_def db_query_def logging_store_def)

end
